theory Spec2Isabelle
  imports Main "HOL-Library.Multiset"
begin

section \<open>Data model of the message board (src/app.py)\<close>

text \<open>
  A Python \<open>str\<close> is a sequence of Unicode code points, and slicing and \<open>len\<close> count code
  points; a string is therefore a list of code point numbers (a space is 32).
  Literals of the source that are only passed on (flash texts, cookie names) stay
  Isabelle strings.
\<close>

type_synonym str = "nat list"

text \<open>The two tables. \<open>Topic.id\<close> and \<open>Message.id\<close> are integer primary keys.\<close>

record Topic =
  Topic_id :: int
  Topic_title :: str

record Message =
  Message_id :: int
  Message_content :: str
  Message_username :: "str option"
  Message_topic_id :: int
  Message_created_at :: nat

text \<open>
  The Flask session is a dictionary: \<open>authenticated\<close> is \<open>None\<close> while the key is absent.
  \<open>flash(message, category)\<close> appends the pair (category, message) to the session.
\<close>

record session_data =
  authenticated :: "bool option"
  permanent :: bool
  flashes :: "(string \<times> string) list"

text \<open>
  What persists between requests: the rows of both tables in insertion order, and the
  session of the one client.
\<close>

record world =
  topics :: "Topic list"
  messages :: "Message list"
  session :: session_data

datatype http_method = GET | POST

text \<open>
  The parts of a request the handlers read. \<open>args_page\<close> is the value of
  \<open>request.args.get('page', 1, type=int)\<close> before the default is applied: \<open>None\<close> when
  the parameter is missing or its conversion by \<open>int\<close> raises, in which cases \<open>get\<close>
  returns the default.
\<close>

record request =
  req_method :: http_method
  req_url :: str
  args_next :: "str option"
  args_page :: "int option"
  form_password :: "str option"
  form_title :: "str option"
  form_content :: "str option"
  form_username :: "str option"
  cookie_username :: "str option"

text \<open>The process environment: \<open>os.getenv('BOARD_PASSWORD')\<close> and the database clock.\<close>

record env =
  BOARD_PASSWORD :: "str option"
  now :: nat

text \<open>
  Redirect targets: the three \<open>url_for\<close> endpoints the handlers name, with their
  arguments, and a URL taken as it is (\<open>redirect(next_page)\<close>).
\<close>

datatype target =
  Url_login "str option"
| Url_list_topics
| Url_view_topic int
| Url_raw str

text \<open>
  The two error responses: \<open>abort(404)\<close>, and the HTTP 500 with which Flask answers an
  exception no handler catches (here the \<open>OverflowError\<close> of the SQLite driver).
\<close>

datatype http_error = NotFound | InternalServerError

text \<open>The object \<open>paginate\<close> returns.\<close>

record Pagination =
  items :: "Message list"
  page :: int
  per_page :: nat
  total :: nat

datatype body =
  Redirect target
| Render_login
| Render_topics "Topic list"
| Render_topic Topic Pagination str
| Render_new_topic
| Abort http_error

text \<open>A response: what is returned, and the cookie set on it (name, value, max-age).\<close>

record response =
  body :: body
  set_cookie :: "(string \<times> str \<times> nat) option"

type_synonym handler = "env \<Rightarrow> request \<Rightarrow> world \<Rightarrow> response \<times> world"

section \<open>Helpers of the framework and the store\<close>

definition redirect :: "target \<Rightarrow> response" where
  "redirect t = \<lparr>body = Redirect t, set_cookie = None\<rparr>"

definition render_template :: "body \<Rightarrow> response" where
  "render_template b = \<lparr>body = b, set_cookie = None\<rparr>"

definition abort :: "http_error \<Rightarrow> response" where
  "abort e = \<lparr>body = Abort e, set_cookie = None\<rparr>"

definition flash :: "string \<Rightarrow> string \<Rightarrow> world \<Rightarrow> world" where
  "flash message category w =
     w\<lparr>session := (session w)\<lparr>flashes := flashes (session w) @ [(category, message)]\<rparr>\<rparr>"

text \<open>Python truthiness of an optional string: \<open>None\<close> and \<open>''\<close> are false.\<close>

fun truthy :: "str option \<Rightarrow> bool" where
  "truthy None = False"
| "truthy (Some s) = (s \<noteq> [])"

text \<open>
  The id the SQLite store gives a new row of an \<open>INTEGER PRIMARY KEY\<close> column: 1 in an
  empty table, otherwise one more than the largest id present.
\<close>

definition next_id :: "int list \<Rightarrow> int" where
  "next_id ids = (if ids = [] then 1 else Max (set ids) + 1)"

text \<open>The row of the \<open>topic\<close> table with that primary key, if any.\<close>

definition get_topic :: "world \<Rightarrow> int \<Rightarrow> Topic option" where
  "get_topic w i = find (\<lambda>t. Topic_id t = i) (topics w)"

text \<open>
  SQLite integers have 64 bits. A Python \<open>int\<close> outside that range cannot be passed to
  the driver as a query parameter: it raises \<open>OverflowError\<close>, which no handler catches.
\<close>

definition sqlite_int :: "int \<Rightarrow> bool" where
  "sqlite_int i \<longleftrightarrow> - (2 ^ 63) \<le> i \<and> i < 2 ^ 63"

text \<open>
  The tables of this model hold unbounded integers (\<open>next_id\<close> never runs out), so the
  driver's refusal is applied to what lies outside the 64-bit range and outside the
  store as well: a topic id is accepted when it is in range or is the key of a stored
  Topic, an offset when it is in range or below the number of rows selected. In a
  store SQLite can hold, every key and every row count is in range, and both
  conditions are the range check alone.
\<close>

definition accepts_key :: "world \<Rightarrow> int \<Rightarrow> bool" where
  "accepts_key w i \<longleftrightarrow> sqlite_int i \<or> get_topic w i \<noteq> None"

definition accepts_offset :: "'a list \<Rightarrow> nat \<Rightarrow> bool" where
  "accepts_offset q n \<longleftrightarrow> sqlite_int (int n) \<or> n < length q"

text \<open>
  \<open>Topic.query.get_or_404(topic_id)\<close>: the id is passed to the driver, and a key without
  a row aborts with 404.
\<close>

definition get_or_404 :: "world \<Rightarrow> int \<Rightarrow> http_error + Topic" where
  "get_or_404 w i =
     (if \<not> accepts_key w i then Inl InternalServerError
      else case get_topic w i of None \<Rightarrow> Inl NotFound | Some t \<Rightarrow> Inr t)"

text \<open>\<open>Topic.query.order_by(Topic.id.desc()).all()\<close>.\<close>

definition topics_by_id_desc :: "world \<Rightarrow> Topic list" where
  "topics_by_id_desc w = sort_key (\<lambda>t. - Topic_id t) (topics w)"

text \<open>\<open>Message.query.filter_by(topic_id=topic_id).order_by(Message.id.desc())\<close>.\<close>

definition messages_by_id_desc :: "world \<Rightarrow> int \<Rightarrow> Message list" where
  "messages_by_id_desc w i =
     sort_key (\<lambda>m. - Message_id m) (filter (\<lambda>m. Message_topic_id m = i) (messages w))"

text \<open>
  \<open>Query.paginate(page, per_page)\<close> of Flask-SQLAlchemy, called by the source with the
  library's default \<open>error_out=True\<close>: a page number below 1 aborts with 404; the
  items are the rows from offset \<open>(page - 1) * per_page\<close>, at most \<open>per_page\<close> of them, and
  the offset is passed to the driver as a query parameter; no items on a page other
  than the first aborts with 404.
\<close>

definition paginate :: "Message list \<Rightarrow> int \<Rightarrow> nat \<Rightarrow> http_error + Pagination" where
  "paginate q pg pp =
     (if pg < 1 then Inl NotFound
      else let offset = nat (pg - 1) * pp
           in if \<not> accepts_offset q offset then Inl InternalServerError
              else let its = take pp (drop offset q)
                   in if its = [] \<and> pg \<noteq> 1 then Inl NotFound
                      else Inr \<lparr>items = its, page = pg, per_page = pp, total = length q\<rparr>)"

section \<open>The handlers\<close>

definition login_required :: "handler \<Rightarrow> handler" where
  "login_required f e rq w =
     (if authenticated (session w) = None
      then (redirect (Url_login (Some (req_url rq))), w)
      else f e rq w)"

definition login :: handler where
  "login e rq w =
     (if req_method rq = POST then
        (if form_password rq = BOARD_PASSWORD e then
           (let w1 = w\<lparr>session := (session w)\<lparr>authenticated := Some True, permanent := True\<rparr>\<rparr>
            in case args_next rq of
                 None \<Rightarrow> (redirect Url_list_topics, w1)
               | Some next_page \<Rightarrow>
                   (if next_page \<noteq> [] then (redirect (Url_raw next_page), w1)
                    else (redirect Url_list_topics, w1)))
         else (render_template Render_login, flash ''Invalid password'' ''error'' w))
      else (render_template Render_login, w))"

definition logout :: handler where
  "logout e rq w =
     (redirect (Url_login None),
      w\<lparr>session := \<lparr>authenticated = None, permanent = False, flashes = []\<rparr>\<rparr>)"

definition list_topics_body :: handler where
  "list_topics_body e rq w = (render_template (Render_topics (topics_by_id_desc w)), w)"

definition list_topics :: handler where
  "list_topics = login_required list_topics_body"

definition view_topic_body :: "int \<Rightarrow> handler" where
  "view_topic_body topic_id e rq w =
     (let pg = (case args_page rq of None \<Rightarrow> 1 | Some p \<Rightarrow> p)
      in case get_or_404 w topic_id of
           Inl err \<Rightarrow> (abort err, w)
         | Inr topic \<Rightarrow>
             (case paginate (messages_by_id_desc w topic_id) pg 10 of
                Inl err \<Rightarrow> (abort err, w)
              | Inr msgs \<Rightarrow>
                  (let username = (case cookie_username rq of None \<Rightarrow> [] | Some u \<Rightarrow> u)
                   in (render_template (Render_topic topic msgs username), w))))"

definition view_topic :: "int \<Rightarrow> handler" where
  "view_topic topic_id = login_required (view_topic_body topic_id)"

text \<open>
  In the two handlers below \<open>the\<close> reads an optional form value only in the branch where
  \<open>truthy\<close> has found it present. The store is SQLite as SQLAlchemy opens it: it does
  not check the length of a \<open>String(n)\<close> column, and it does not check foreign keys
  (the source never switches them on), so an insert succeeds for every \<open>topic_id\<close> the
  driver accepts. For one it does not accept, \<open>db.session.commit()\<close> raises
  \<open>OverflowError\<close>: nothing is stored and the answer is HTTP 500.
\<close>

definition new_topic_body :: handler where
  "new_topic_body e rq w =
     (if req_method rq = POST then
        (if truthy (form_title rq) then
           (let topic = \<lparr>Topic_id = next_id (map Topic_id (topics w)),
                         Topic_title = the (form_title rq)\<rparr>
            in (redirect (Url_view_topic (Topic_id topic)), w\<lparr>topics := topics w @ [topic]\<rparr>))
         else (render_template Render_new_topic, flash ''Topic title cannot be empty'' ''error'' w))
      else (render_template Render_new_topic, w))"

definition new_topic :: handler where
  "new_topic = login_required new_topic_body"

definition add_message_body :: "int \<Rightarrow> handler" where
  "add_message_body topic_id e rq w =
     (let content = form_content rq; username = form_username rq
      in if \<not> truthy content
         then (redirect (Url_view_topic topic_id), flash ''Message cannot be empty'' ''error'' w)
         else if \<not> accepts_key w topic_id then (abort InternalServerError, w)
         else
           (let message = \<lparr>Message_id = next_id (map Message_id (messages w)),
                            Message_content = take 300 (the content),
                            Message_username =
                              (if truthy username then Some (take 50 (the username)) else None),
                            Message_topic_id = topic_id,
                            Message_created_at = now e\<rparr>;
                w1 = w\<lparr>messages := messages w @ [message]\<rparr>;
                response = redirect (Url_view_topic topic_id)
            in if truthy username
               then (response\<lparr>set_cookie := Some (''username'', the username, 30 * 24 * 60 * 60)\<rparr>, w1)
               else (response, w1)))"

definition add_message :: "int \<Rightarrow> handler" where
  "add_message topic_id = login_required (add_message_body topic_id)"

section \<open>Trimming, as the specification words it\<close>

text \<open>
  The specification speaks of a title that is "empty after trimming". The source calls
  no trimming function; the two definitions below are Python's \<open>str.isspace\<close> on one
  code point and \<open>str.strip()\<close>, so that the specification's condition can be stated.
\<close>

definition is_space :: "nat \<Rightarrow> bool" where
  "is_space c \<longleftrightarrow>
     c \<in> set [9, 10, 11, 12, 13, 28, 29, 30, 31, 32, 133, 160, 5760, 8192, 8193, 8194, 8195,
              8196, 8197, 8198, 8199, 8200, 8201, 8202, 8232, 8233, 8239, 8287, 12288]"

definition trimmed :: "str \<Rightarrow> str" where
  "trimmed s = rev (dropWhile is_space (rev (dropWhile is_space s)))"

section \<open>Example data\<close>

text \<open>
  A board with one topic (id 1) holding 25 messages with ids 1 to 25, seen by a client
  whose session is authenticated; and an empty board.
\<close>

definition example_env :: env where
  "example_env = \<lparr>BOARD_PASSWORD = Some [115, 51, 99, 114, 51, 116], now = 1000\<rparr>"

definition example_session :: session_data where
  "example_session = \<lparr>authenticated = Some True, permanent = True, flashes = []\<rparr>"

definition example_topic :: Topic where
  "example_topic = \<lparr>Topic_id = 1, Topic_title = [110, 101, 119, 115]\<rparr>"

definition example_message :: "nat \<Rightarrow> Message" where
  "example_message i =
     \<lparr>Message_id = int i, Message_content = [104, 105], Message_username = None,
      Message_topic_id = 1, Message_created_at = i\<rparr>"

definition example_world :: world where
  "example_world =
     \<lparr>topics = [example_topic], messages = map example_message [1..<26],
      session = example_session\<rparr>"

definition quiet_world :: world where
  "quiet_world = \<lparr>topics = [example_topic], messages = [], session = example_session\<rparr>"

definition anonymous_world :: world where
  "anonymous_world =
     \<lparr>topics = [example_topic], messages = map example_message [1..<26],
      session = \<lparr>authenticated = None, permanent = False, flashes = []\<rparr>\<rparr>"

definition empty_world :: world where
  "empty_world = \<lparr>topics = [], messages = [], session = example_session\<rparr>"

definition example_request :: request where
  "example_request =
     \<lparr>req_method = GET, req_url = [47], args_next = None, args_page = None,
      form_password = None, form_title = None, form_content = None, form_username = None,
      cookie_username = None\<rparr>"

section \<open>The session gate\<close>

lemma login_required_allowed:
  "authenticated (session w) \<noteq> None \<Longrightarrow> login_required f e rq w = f e rq w"
  unfolding login_required_def by (cases "authenticated (session w)") simp_all

lemma login_required_refused:
  "authenticated (session w) = None \<Longrightarrow>
     login_required f e rq w = (redirect (Url_login (Some (req_url rq))), w)"
  unfolding login_required_def by simp

text \<open>
  C9. Without an active session (no \<open>authenticated\<close> key), each of the four protected
  operations changes nothing and redirects to the login page with the requested URL
  as \<open>next\<close>. A login request with the right password marks the session authenticated;
  when it carries that URL as \<open>next\<close> it redirects to it, and when it carries no
  \<open>next\<close> (or an empty one) it redirects to the topic list.
\<close>

theorem login_gate_preserves_destination:
  assumes "authenticated (session w) = None"
  shows "list_topics e rq w = (redirect (Url_login (Some (req_url rq))), w)
       \<and> view_topic tid e rq w = (redirect (Url_login (Some (req_url rq))), w)
       \<and> new_topic e rq w = (redirect (Url_login (Some (req_url rq))), w)
       \<and> add_message tid e rq w = (redirect (Url_login (Some (req_url rq))), w)
       \<and> (\<forall>rq' w'. req_method rq' = POST \<and> form_password rq' = BOARD_PASSWORD e \<longrightarrow>
             authenticated (session (snd (login e rq' w'))) = Some True
           \<and> (args_next rq' = Some (req_url rq) \<and> req_url rq \<noteq> [] \<longrightarrow>
                fst (login e rq' w') = redirect (Url_raw (req_url rq)))
           \<and> (args_next rq' = None \<or> args_next rq' = Some [] \<longrightarrow>
                fst (login e rq' w') = redirect Url_list_topics))"
proof -
  have gate: "list_topics e rq w = (redirect (Url_login (Some (req_url rq))), w)
       \<and> view_topic tid e rq w = (redirect (Url_login (Some (req_url rq))), w)
       \<and> new_topic e rq w = (redirect (Url_login (Some (req_url rq))), w)
       \<and> add_message tid e rq w = (redirect (Url_login (Some (req_url rq))), w)"
    using assms
    by (simp add: list_topics_def view_topic_def new_topic_def add_message_def
        login_required_refused)
  have return: "authenticated (session (snd (login e rq' w'))) = Some True
           \<and> (args_next rq' = Some (req_url rq) \<and> req_url rq \<noteq> [] \<longrightarrow>
                fst (login e rq' w') = redirect (Url_raw (req_url rq)))
           \<and> (args_next rq' = None \<or> args_next rq' = Some [] \<longrightarrow>
                fst (login e rq' w') = redirect Url_list_topics)"
    if "req_method rq' = POST" and "form_password rq' = BOARD_PASSWORD e" for rq' w'
    using that by (auto simp add: login_def Let_def split: option.split)
  show ?thesis using gate return by blast
qed

theorem login_gate_preserves_destination_witness:
  "view_topic 1 example_env (example_request\<lparr>req_url := [47, 116, 111, 112, 105, 99, 47, 49]\<rparr>)
       anonymous_world
     = (redirect (Url_login (Some [47, 116, 111, 112, 105, 99, 47, 49])), anonymous_world)
   \<and> fst (login example_env
        (example_request\<lparr>req_method := POST, form_password := Some [115, 51, 99, 114, 51, 116],
           args_next := Some [47, 116, 111, 112, 105, 99, 47, 49]\<rparr>)
        anonymous_world)
     = redirect (Url_raw [47, 116, 111, 112, 105, 99, 47, 49])
   \<and> fst (login example_env
        (example_request\<lparr>req_method := POST, form_password := Some [115, 51, 99, 114, 51, 116]\<rparr>)
        anonymous_world)
     = redirect Url_list_topics"
proof -
  have a: "authenticated (session anonymous_world) = None"
    by (simp add: anonymous_world_def)
  have n: "args_next example_request = None"
    by (simp add: example_request_def)
  show ?thesis
    using login_gate_preserves_destination [OF a, of example_env
        "example_request\<lparr>req_url := [47, 116, 111, 112, 105, 99, 47, 49]\<rparr>" 1]
    by (simp add: example_env_def n)
qed

section \<open>Posting a message\<close>

lemma accepts_key_in_range: "0 \<le> i \<Longrightarrow> i < 2 ^ 63 \<Longrightarrow> accepts_key w i"
  by (simp add: accepts_key_def sqlite_int_def)

lemma accepts_key_stored: "get_topic w i = Some t \<Longrightarrow> accepts_key w i"
  by (simp add: accepts_key_def)

text \<open>
  In a store whose keys and row counts are 64-bit integers, as every store SQLite
  holds, the driver accepts exactly the values in the 64-bit range.
\<close>

lemma accepts_key_bounded_store:
  assumes "\<forall>t\<in>set (topics w). sqlite_int (Topic_id t)"
  shows "accepts_key w i \<longleftrightarrow> sqlite_int i"
proof -
  have "sqlite_int i" if "get_topic w i = Some t" for t
  proof -
    from that have "t \<in> set (topics w)" and "Topic_id t = i"
      by (auto simp add: get_topic_def find_Some_iff)
    with assms show ?thesis by auto
  qed
  then show ?thesis by (auto simp add: accepts_key_def)
qed

lemma accepts_offset_bounded_store:
  assumes "int (length q) \<le> 2 ^ 63"
  shows "accepts_offset q n \<longleftrightarrow> sqlite_int (int n)"
  using assms by (auto simp add: accepts_offset_def sqlite_int_def)

text \<open>What \<open>add_message\<close> does on each of its paths, for an authenticated client.\<close>

lemma add_message_rejected:
  assumes "authenticated (session w) \<noteq> None" and "\<not> truthy (form_content rq)"
  shows "add_message tid e rq w =
           (redirect (Url_view_topic tid), flash ''Message cannot be empty'' ''error'' w)"
  using assms by (simp add: add_message_def login_required_allowed add_message_body_def)

lemma add_message_overflow:
  assumes "authenticated (session w) \<noteq> None" and "form_content rq = Some c" and "c \<noteq> []"
    and "\<not> accepts_key w tid"
  shows "add_message tid e rq w = (abort InternalServerError, w)"
  using assms
  by (simp add: add_message_def login_required_allowed add_message_body_def Let_def)

lemma add_message_stored:
  assumes "authenticated (session w) \<noteq> None" and "form_content rq = Some c" and "c \<noteq> []"
    and "accepts_key w tid"
  shows "snd (add_message tid e rq w) =
           w\<lparr>messages := messages w @
               [\<lparr>Message_id = next_id (map Message_id (messages w)),
                 Message_content = take 300 c,
                 Message_username =
                   (if truthy (form_username rq) then Some (take 50 (the (form_username rq)))
                    else None),
                 Message_topic_id = tid,
                 Message_created_at = now e\<rparr>]\<rparr>"
  using assms
  by (simp add: add_message_def login_required_allowed add_message_body_def Let_def)

lemma add_message_response:
  assumes "authenticated (session w) \<noteq> None" and "form_content rq = Some c" and "c \<noteq> []"
    and "accepts_key w tid"
  shows "fst (add_message tid e rq w) =
           \<lparr>body = Redirect (Url_view_topic tid),
            set_cookie =
              (if truthy (form_username rq)
               then Some (''username'', the (form_username rq), 30 * 24 * 60 * 60) else None)\<rparr>"
  using assms
  by (simp add: add_message_def login_required_allowed add_message_body_def Let_def redirect_def)

text \<open>
  C3. For an authenticated client and a topic that exists, \<open>add_message\<close> with non-empty
  content appends exactly one Message to the store, in that topic; its content is the
  first 300 characters of the input when the input is longer than 300 characters (and
  then has length 300), and the input unchanged when it has 300 characters or fewer.
\<close>

theorem add_message_content_truncated:
  assumes "authenticated (session w) \<noteq> None"
    and "get_topic w tid = Some t"
    and "form_content rq = Some c" and "c \<noteq> []"
  shows "\<exists>m. messages (snd (add_message tid e rq w)) = messages w @ [m]
            \<and> Message_topic_id m = tid
            \<and> (300 < length c \<longrightarrow> Message_content m = take 300 c \<and> length (Message_content m) = 300)
            \<and> (length c \<le> 300 \<longrightarrow> Message_content m = c)"
  using add_message_stored [OF assms(1,3,4) accepts_key_stored [OF assms(2)], of e] by simp

theorem add_message_content_truncated_witness:
  "\<exists>m. messages (snd (add_message 1 example_env
            (example_request\<lparr>req_method := POST, form_content := Some (replicate 301 97 @ [98])\<rparr>)
            example_world))
          = messages example_world @ [m]
        \<and> Message_content m = replicate 300 97"
proof -
  have a: "authenticated (session example_world) \<noteq> None"
    by (simp add: example_world_def example_session_def)
  have t: "get_topic example_world 1 = Some example_topic"
    by (simp add: get_topic_def example_world_def example_topic_def)
  show ?thesis
    using add_message_content_truncated [OF a t, of
        "example_request\<lparr>req_method := POST, form_content := Some (replicate 301 97 @ [98])\<rparr>"
        "replicate 301 97 @ [98]" example_env]
    by auto
qed

text \<open>
  C8. For an authenticated client, \<open>add_message\<close> with empty content (absent, or the empty
  string) redirects back to the topic's view, flashes the message
  \<open>Message cannot be empty\<close>, sets no cookie, and leaves the stored Topics and Messages
  as they were.
\<close>

theorem add_message_empty_content:
  assumes "authenticated (session w) \<noteq> None"
    and "form_content rq = None \<or> form_content rq = Some []"
  shows "body (fst (add_message tid e rq w)) = Redirect (Url_view_topic tid)
       \<and> set_cookie (fst (add_message tid e rq w)) = None
       \<and> flashes (session (snd (add_message tid e rq w)))
           = flashes (session w) @ [(''error'', ''Message cannot be empty'')]
       \<and> messages (snd (add_message tid e rq w)) = messages w
       \<and> topics (snd (add_message tid e rq w)) = topics w"
proof -
  from assms(2) have "\<not> truthy (form_content rq)" by auto
  from add_message_rejected [OF assms(1) this, of tid e]
  show ?thesis by (simp add: redirect_def flash_def)
qed

theorem add_message_empty_content_witness:
  "body (fst (add_message 1 example_env
        (example_request\<lparr>req_method := POST, form_content := Some []\<rparr>) example_world))
     = Redirect (Url_view_topic 1)
   \<and> messages (snd (add_message 1 example_env
        (example_request\<lparr>req_method := POST, form_content := Some []\<rparr>) example_world))
     = messages example_world
   \<and> flashes (session (snd (add_message 1 example_env
        (example_request\<lparr>req_method := POST, form_content := Some []\<rparr>) example_world)))
     = [(''error'', ''Message cannot be empty'')]"
proof -
  have a: "authenticated (session example_world) \<noteq> None"
    by (simp add: example_world_def example_session_def)
  show ?thesis
    using add_message_empty_content [OF a, of
        "example_request\<lparr>req_method := POST, form_content := Some []\<rparr>" 1 example_env]
    by (simp add: example_world_def example_session_def)
qed

text \<open>
  C4. For an authenticated client and a topic id that fits a SQLite integer (the
  route's non-negative number, below \<open>2^63\<close>), \<open>add_message\<close> with non-empty content
  appends exactly one Message; when the username supplied is longer than 50
  characters the stored username is its first 50 characters, and when no username is
  supplied the stored username is absent (\<open>None\<close>), not the empty string.
\<close>

theorem add_message_username_truncated:
  assumes "authenticated (session w) \<noteq> None"
    and "form_content rq = Some c" and "c \<noteq> []"
    and "0 \<le> tid" and "tid < 2 ^ 63"
  shows "\<exists>m. messages (snd (add_message tid e rq w)) = messages w @ [m]
            \<and> (\<forall>u. form_username rq = Some u \<and> 50 < length u \<longrightarrow>
                   Message_username m = Some (take 50 u) \<and> length (take 50 u) = 50)
            \<and> (form_username rq = None \<longrightarrow> Message_username m = None \<and> Message_username m \<noteq> Some [])"
  using add_message_stored [OF assms(1-3) accepts_key_in_range [OF assms(4,5)], of e]
  by auto

theorem add_message_username_truncated_witness:
  "(\<exists>m. messages (snd (add_message 1 example_env
            (example_request\<lparr>req_method := POST, form_content := Some [104, 105],
               form_username := Some (replicate 50 97 @ [98, 99])\<rparr>)
            example_world))
          = messages example_world @ [m]
        \<and> Message_username m = Some (replicate 50 97))
   \<and> (\<exists>m. messages (snd (add_message 1 example_env
            (example_request\<lparr>req_method := POST, form_content := Some [104, 105]\<rparr>)
            example_world))
          = messages example_world @ [m]
        \<and> Message_username m = None)"
proof -
  have a: "authenticated (session example_world) \<noteq> None"
    by (simp add: example_world_def example_session_def)
  show ?thesis
    using add_message_username_truncated [OF a, of
        "example_request\<lparr>req_method := POST, form_content := Some [104, 105],
           form_username := Some (replicate 50 97 @ [98, 99])\<rparr>" "[104, 105]" 1 example_env]
      add_message_username_truncated [OF a, of
        "example_request\<lparr>req_method := POST, form_content := Some [104, 105]\<rparr>"
        "[104, 105]" 1 example_env]
    by (auto simp add: example_request_def)
qed

text \<open>
  C10. For an authenticated client, \<open>add_message\<close> with non-empty content and the empty
  string as username sets no cookie on the response and has the same outcome as the
  request without a username; and when the topic id fits a SQLite integer (the
  route's non-negative number, below \<open>2^63\<close>) it stores one Message, whose username is
  absent (\<open>None\<close>).
\<close>

theorem add_message_empty_username:
  assumes "authenticated (session w) \<noteq> None"
    and "form_content rq = Some c" and "c \<noteq> []"
    and "form_username rq = Some []"
  shows "set_cookie (fst (add_message tid e rq w)) = None
       \<and> add_message tid e rq w = add_message tid e (rq\<lparr>form_username := None\<rparr>) w
       \<and> (0 \<le> tid \<and> tid < 2 ^ 63 \<longrightarrow>
            (\<exists>m. messages (snd (add_message tid e rq w)) = messages w @ [m]
                \<and> Message_username m = None))"
proof -
  let ?rq' = "rq\<lparr>form_username := None\<rparr>"
  have c': "form_content ?rq' = Some c" using assms(2) by simp
  have same: "add_message tid e rq w = add_message tid e ?rq' w"
  proof (cases "accepts_key w tid")
    case True
    have "snd (add_message tid e rq w) = snd (add_message tid e ?rq' w)"
      using add_message_stored [OF assms(1,2,3) True, of e]
        add_message_stored [OF assms(1) c' assms(3) True, of e] assms(4)
      by simp
    moreover have "fst (add_message tid e rq w) = fst (add_message tid e ?rq' w)"
      using add_message_response [OF assms(1,2,3) True, of e]
        add_message_response [OF assms(1) c' assms(3) True, of e] assms(4)
      by simp
    ultimately show ?thesis by (rule_tac prod_eqI) simp_all
  next
    case False
    show ?thesis
      using add_message_overflow [OF assms(1,2,3) False, of e]
        add_message_overflow [OF assms(1) c' assms(3) False, of e]
      by simp
  qed
  have no_cookie: "set_cookie (fst (add_message tid e rq w)) = None"
  proof (cases "accepts_key w tid")
    case True
    show ?thesis
      using add_message_response [OF assms(1,2,3) True, of e] assms(4) by simp
  next
    case False
    show ?thesis
      using add_message_overflow [OF assms(1,2,3) False, of e] by (simp add: abort_def)
  qed
  have stored: "\<exists>m. messages (snd (add_message tid e rq w)) = messages w @ [m]
                  \<and> Message_username m = None"
    if "0 \<le> tid \<and> tid < 2 ^ 63"
  proof -
    from that have "accepts_key w tid" by (simp add: accepts_key_in_range)
    from add_message_stored [OF assms(1,2,3) this, of e] assms(4)
    show ?thesis by simp
  qed
  show ?thesis using same no_cookie stored by blast
qed

theorem add_message_empty_username_witness:
  "\<exists>m. messages (snd (add_message 1 example_env
            (example_request\<lparr>req_method := POST, form_content := Some [104, 105],
               form_username := Some []\<rparr>)
            example_world))
          = messages example_world @ [m]
        \<and> Message_username m = None
        \<and> set_cookie (fst (add_message 1 example_env
            (example_request\<lparr>req_method := POST, form_content := Some [104, 105],
               form_username := Some []\<rparr>)
            example_world)) = None"
proof -
  have a: "authenticated (session example_world) \<noteq> None"
    by (simp add: example_world_def example_session_def)
  show ?thesis
    using add_message_empty_username [OF a, of
        "example_request\<lparr>req_method := POST, form_content := Some [104, 105],
           form_username := Some []\<rparr>" "[104, 105]" 1 example_env]
    by auto
qed

section \<open>Viewing a topic\<close>

lemma accepts_offset_iff:
  "1 \<le> p \<Longrightarrow>
     accepts_offset q (nat (p - 1) * 10) \<longleftrightarrow>
       10 * (p - 1) < 2 ^ 63 \<or> 10 * (p - 1) < int (length q)"
  by (auto simp add: accepts_offset_def sqlite_int_def)

lemma paginate_overflow:
  assumes "1 \<le> p" and "2 ^ 63 \<le> 10 * (p - 1)" and "int (length q) \<le> 10 * (p - 1)"
  shows "paginate q p 10 = Inl InternalServerError"
  using assms by (simp add: paginate_def Let_def accepts_offset_iff)

lemma paginate_cases:
  assumes "10 * (p - 1) < 2 ^ 63 \<or> 10 * (p - 1) < int (length q)"
  shows "paginate q p 10 =
     (if p < 1 \<or> (p \<noteq> 1 \<and> int (length q) \<le> 10 * (p - 1)) then Inl NotFound
      else Inr \<lparr>items = take 10 (drop (nat (p - 1) * 10) q), page = p, per_page = 10,
                total = length q\<rparr>)"
proof (cases "p < 1")
  case True
  then show ?thesis by (simp add: paginate_def)
next
  case False
  then have "accepts_offset q (nat (p - 1) * 10)"
    using assms by (simp add: accepts_offset_iff)
  then show ?thesis
    using False by (auto simp add: paginate_def Let_def)
qed

lemma get_or_404_found: "get_topic w i = Some t \<Longrightarrow> get_or_404 w i = Inr t"
  by (simp add: get_or_404_def accepts_key_def)

lemma get_or_404_missing:
  "get_topic w i = None \<Longrightarrow>
     get_or_404 w i = (if sqlite_int i then Inl NotFound else Inl InternalServerError)"
  by (simp add: get_or_404_def accepts_key_def)

lemma view_topic_missing:
  assumes "authenticated (session w) \<noteq> None" and "get_topic w tid = None"
    and "0 \<le> tid" and "tid < 2 ^ 63"
  shows "view_topic tid e rq w = (abort NotFound, w)"
  using assms
  by (simp add: view_topic_def login_required_allowed view_topic_body_def
      get_or_404_missing sqlite_int_def)

lemma view_topic_overflow:
  assumes "authenticated (session w) \<noteq> None" and "get_topic w tid = None"
    and "2 ^ 63 \<le> tid"
  shows "view_topic tid e rq w = (abort InternalServerError, w)"
  using assms
  by (simp add: view_topic_def login_required_allowed view_topic_body_def
      get_or_404_missing sqlite_int_def)

lemma view_topic_found:
  assumes "authenticated (session w) \<noteq> None" and "get_topic w tid = Some t"
  shows "view_topic tid e rq w =
           (case paginate (messages_by_id_desc w tid)
                   (case args_page rq of None \<Rightarrow> 1 | Some p \<Rightarrow> p) 10 of
              Inl err \<Rightarrow> (abort err, w)
            | Inr msgs \<Rightarrow>
                (render_template
                   (Render_topic t msgs (case cookie_username rq of None \<Rightarrow> [] | Some u \<Rightarrow> u)),
                 w))"
  using assms
  by (simp add: view_topic_def login_required_allowed view_topic_body_def Let_def
        get_or_404_found split: sum.split)

lemma messages_by_id_desc_sorted:
  "sorted_wrt (\<lambda>a b. Message_id b \<le> Message_id a) (messages_by_id_desc w tid)"
proof -
  have "sorted (map (\<lambda>m. - Message_id m) (messages_by_id_desc w tid))"
    unfolding messages_by_id_desc_def by (rule sorted_sort_key)
  then show ?thesis
    by (simp add: sorted_map sorted_wrt_iff_nth_less)
qed

lemma messages_by_id_desc_mset:
  "mset (messages_by_id_desc w tid) =
     filter_mset (\<lambda>m. Message_topic_id m = tid) (mset (messages w))"
  by (simp add: messages_by_id_desc_def)

lemma topic_message_count:
  "length (messages_by_id_desc w tid) =
     length (filter (\<lambda>m. Message_topic_id m = tid) (messages w))"
  by (simp add: messages_by_id_desc_def)

lemma example_world_authenticated: "authenticated (session example_world) \<noteq> None"
  by (simp add: example_world_def example_session_def)

lemma example_world_topic: "get_topic example_world 1 = Some example_topic"
  by (simp add: get_topic_def example_world_def example_topic_def)

lemma example_world_ids:
  "map Message_id (messages_by_id_desc example_world 1) =
     [25, 24, 23, 22, 21, 20, 19, 18, 17, 16, 15, 14, 13, 12, 11, 10, 9, 8, 7, 6, 5, 4, 3, 2, 1]"
  by code_simp

lemma example_world_count: "length (messages_by_id_desc example_world 1) = 25"
  using arg_cong [OF example_world_ids, of length] by simp

text \<open>
  C7, as stated, fails: topic 1 exists, and \<open>view_topic\<close> with page number 0 answers
  404 all the same.
\<close>

theorem view_topic_existing_counterexample:
  "get_topic example_world 1 = Some example_topic
   \<and> view_topic 1 example_env (example_request\<lparr>args_page := Some 0\<rparr>) example_world
       = (abort NotFound, example_world)"
  using view_topic_found [OF example_world_authenticated example_world_topic, of
      example_env "example_request\<lparr>args_page := Some 0\<rparr>"]
  by (simp add: example_world_topic paginate_cases)

text \<open>
  C7 (amended). For an authenticated client and values that fit a SQLite integer (a
  topic id below \<open>2^63\<close>, and a page number whose offset \<open>10 * (page - 1)\<close> is below
  \<open>2^63\<close>): when \<open>topic_id\<close> references no Topic, \<open>view_topic\<close> fails with NotFound. When
  it references a Topic, \<open>view_topic\<close> fails with NotFound exactly when a page number
  is supplied that is below 1, or is not 1 and lies beyond the last page of the topic's
  messages; so it does not fail when no page number is supplied, for page 1, or for a
  page that holds a message.
\<close>

theorem view_topic_not_found:
  assumes "authenticated (session w) \<noteq> None"
  shows "(get_topic w tid = None \<and> 0 \<le> tid \<and> tid < 2 ^ 63 \<longrightarrow>
            view_topic tid e rq w = (abort NotFound, w))
       \<and> (\<forall>t. get_topic w tid = Some t
              \<and> (\<forall>p. args_page rq = Some p \<longrightarrow> 10 * (p - 1) < 2 ^ 63) \<longrightarrow>
            (body (fst (view_topic tid e rq w)) = Abort NotFound \<longleftrightarrow>
               (\<exists>p. args_page rq = Some p \<and>
                    (p < 1 \<or> (p \<noteq> 1 \<and>
                       int (length (filter (\<lambda>m. Message_topic_id m = tid) (messages w)))
                         \<le> 10 * (p - 1))))))"
proof -
  have missing: "view_topic tid e rq w = (abort NotFound, w)"
    if "get_topic w tid = None \<and> 0 \<le> tid \<and> tid < 2 ^ 63"
    using that view_topic_missing [OF assms, of tid e rq] by simp
  have found: "body (fst (view_topic tid e rq w)) = Abort NotFound \<longleftrightarrow>
          (\<exists>p. args_page rq = Some p \<and>
               (p < 1 \<or> (p \<noteq> 1 \<and>
                  int (length (filter (\<lambda>m. Message_topic_id m = tid) (messages w)))
                    \<le> 10 * (p - 1))))"
    if t: "get_topic w tid = Some t"
      and r: "\<forall>p. args_page rq = Some p \<longrightarrow> 10 * (p - 1) < 2 ^ 63" for t
  proof (cases "args_page rq")
    case None
    have "paginate (messages_by_id_desc w tid) 1 10 =
            Inr \<lparr>items = take 10 (drop (nat (1 - 1) * 10) (messages_by_id_desc w tid)),
                 page = 1, per_page = 10, total = length (messages_by_id_desc w tid)\<rparr>"
      by (subst paginate_cases) simp_all
    then show ?thesis
      using None by (simp add: view_topic_found [OF assms t] render_template_def)
  next
    case (Some p)
    then have "10 * (p - 1) < 2 ^ 63" using r by simp
    then have "paginate (messages_by_id_desc w tid) p 10 =
       (if p < 1 \<or> (p \<noteq> 1 \<and> int (length (messages_by_id_desc w tid)) \<le> 10 * (p - 1))
        then Inl NotFound
        else Inr \<lparr>items = take 10 (drop (nat (p - 1) * 10) (messages_by_id_desc w tid)),
                  page = p, per_page = 10, total = length (messages_by_id_desc w tid)\<rparr>)"
      by (intro paginate_cases disjI1)
    then show ?thesis
      using Some
      by (simp add: view_topic_found [OF assms t] topic_message_count
          render_template_def abort_def)
  qed
  show ?thesis using missing found by blast
qed

theorem view_topic_not_found_witness:
  "view_topic 2 example_env example_request example_world = (abort NotFound, example_world)
   \<and> body (fst (view_topic 1 example_env example_request example_world)) \<noteq> Abort NotFound
   \<and> body (fst (view_topic 1 example_env (example_request\<lparr>args_page := Some 3\<rparr>) example_world))
       \<noteq> Abort NotFound
   \<and> body (fst (view_topic 1 example_env (example_request\<lparr>args_page := Some (- 1)\<rparr>)
         example_world)) = Abort NotFound"
proof -
  have missing: "get_topic example_world 2 = None"
    by (simp add: get_topic_def example_world_def example_topic_def)
  have n: "length (filter (\<lambda>m. Message_topic_id m = 1) (messages example_world)) = 25"
    using example_world_count by (simp add: topic_message_count)
  have p: "args_page example_request = None"
    by (simp add: example_request_def)
  show ?thesis
    using view_topic_not_found [OF example_world_authenticated, of 2 example_env example_request]
      view_topic_not_found [OF example_world_authenticated, of 1 example_env example_request]
      view_topic_not_found [OF example_world_authenticated, of 1 example_env
        "example_request\<lparr>args_page := Some 3\<rparr>"]
      view_topic_not_found [OF example_world_authenticated, of 1 example_env
        "example_request\<lparr>args_page := Some (- 1)\<rparr>"]
    by (simp add: missing example_world_topic n p)
qed

text \<open>
  C1, as stated, fails: topic 1 exists and holds 25 messages, so that page 3 is its last
  page, and \<open>view_topic\<close> with page number 4 answers 404 instead of an empty page.
\<close>

theorem view_topic_page_four_counterexample:
  "get_topic example_world 1 = Some example_topic
   \<and> length (messages_by_id_desc example_world 1) = 25
   \<and> view_topic 1 example_env (example_request\<lparr>args_page := Some 4\<rparr>) example_world
       = (abort NotFound, example_world)"
  using view_topic_found [OF example_world_authenticated example_world_topic, of
      example_env "example_request\<lparr>args_page := Some 4\<rparr>"]
  by (simp add: example_world_topic example_world_count paginate_cases)

text \<open>
  C1 (amended). For an authenticated client, an existing topic and a page number of at
  least 1 that lies beyond the last page of the topic's messages (the topic has at most
  \<open>10 * (page - 1)\<close> messages) and whose offset \<open>10 * (page - 1)\<close> fits a SQLite
  integer (is below \<open>2^63\<close>): \<open>view_topic\<close> fails with NotFound, except for page 1,
  which is beyond the last page only when the topic has no messages and then yields an
  empty page.
\<close>

theorem view_topic_beyond_last_page:
  assumes "authenticated (session w) \<noteq> None"
    and "get_topic w tid = Some t"
    and "args_page rq = Some p" and "1 \<le> p"
    and "int (length (filter (\<lambda>m. Message_topic_id m = tid) (messages w))) \<le> 10 * (p - 1)"
    and "10 * (p - 1) < 2 ^ 63"
  shows "(p \<noteq> 1 \<longrightarrow> view_topic tid e rq w = (abort NotFound, w))
       \<and> (p = 1 \<longrightarrow> view_topic tid e rq w =
             (render_template
                (Render_topic t \<lparr>items = [], page = 1, per_page = 10, total = 0\<rparr>
                   (case cookie_username rq of None \<Rightarrow> [] | Some u \<Rightarrow> u)),
              w))"
proof -
  have n: "int (length (messages_by_id_desc w tid)) \<le> 10 * (p - 1)"
    using assms(5) by (simp add: topic_message_count)
  have "paginate (messages_by_id_desc w tid) p 10 =
     (if p < 1 \<or> (p \<noteq> 1 \<and> int (length (messages_by_id_desc w tid)) \<le> 10 * (p - 1))
      then Inl NotFound
      else Inr \<lparr>items = take 10 (drop (nat (p - 1) * 10) (messages_by_id_desc w tid)),
                page = p, per_page = 10, total = length (messages_by_id_desc w tid)\<rparr>)"
    using assms(6) by (intro paginate_cases disjI1)
  then show ?thesis
    using assms(3,4) n
    by (auto simp add: view_topic_found [OF assms(1,2)])
qed

theorem view_topic_beyond_last_page_witness:
  "view_topic 1 example_env (example_request\<lparr>args_page := Some 7\<rparr>) example_world
     = (abort NotFound, example_world)
   \<and> view_topic 1 example_env (example_request\<lparr>args_page := Some 1\<rparr>) quiet_world
     = (render_template
          (Render_topic example_topic \<lparr>items = [], page = 1, per_page = 10, total = 0\<rparr> []),
        quiet_world)"
proof -
  have n: "length (filter (\<lambda>m. Message_topic_id m = 1) (messages example_world)) = 25"
    using example_world_count by (simp add: topic_message_count)
  have qa: "authenticated (session quiet_world) \<noteq> None"
    by (simp add: quiet_world_def example_session_def)
  have qt: "get_topic quiet_world 1 = Some example_topic"
    by (simp add: get_topic_def quiet_world_def example_topic_def)
  have qn: "length (filter (\<lambda>m. Message_topic_id m = 1) (messages quiet_world)) = 0"
    by (simp add: quiet_world_def)
  show ?thesis
    using view_topic_beyond_last_page [OF example_world_authenticated example_world_topic, of
        "example_request\<lparr>args_page := Some 7\<rparr>" 7 example_env]
      view_topic_beyond_last_page [OF qa qt, of
        "example_request\<lparr>args_page := Some 1\<rparr>" 1 example_env]
    by (simp add: n qn example_request_def)
qed

text \<open>
  C6. For an authenticated client and an existing topic, with the page number either
  not supplied (it is then 1) or supplied, at least 1 and not beyond the last page:
  \<open>view_topic\<close> renders the topic with a page of size 10 whose items are the messages
  at positions \<open>10 * (page - 1)\<close> to \<open>10 * page - 1\<close> of the topic's messages in order of
  descending id; that sequence holds exactly the messages of the topic, the page is
  itself in descending id order, and it holds 10 messages or, on the last page, those
  that remain.
\<close>

theorem view_topic_pages:
  assumes "authenticated (session w) \<noteq> None"
    and "get_topic w tid = Some t"
    and "args_page rq = None \<and> p = 1
         \<or> args_page rq = Some p \<and> 1 \<le> p
           \<and> (p = 1 \<or>
               10 * (p - 1) < int (length (filter (\<lambda>m. Message_topic_id m = tid) (messages w))))"
  shows "\<exists>pg. view_topic tid e rq w =
               (render_template
                  (Render_topic t pg (case cookie_username rq of None \<Rightarrow> [] | Some u \<Rightarrow> u)),
                w)
            \<and> page pg = p \<and> per_page pg = 10
            \<and> items pg = take 10 (drop (10 * nat (p - 1)) (messages_by_id_desc w tid))
            \<and> sorted_wrt (\<lambda>a b. Message_id b \<le> Message_id a) (messages_by_id_desc w tid)
            \<and> mset (messages_by_id_desc w tid) =
                filter_mset (\<lambda>m. Message_topic_id m = tid) (mset (messages w))
            \<and> sorted_wrt (\<lambda>a b. Message_id b \<le> Message_id a) (items pg)
            \<and> length (items pg) =
                min 10 (length (filter (\<lambda>m. Message_topic_id m = tid) (messages w))
                        - 10 * nat (p - 1))"
proof -
  let ?ms = "messages_by_id_desc w tid"
  let ?pg = "\<lparr>items = take 10 (drop (nat (p - 1) * 10) ?ms), page = p, per_page = 10,
              total = length ?ms\<rparr>"
  have pg: "(case args_page rq of None \<Rightarrow> 1 | Some p \<Rightarrow> p) = p"
    using assms(3) by auto
  have ok: "\<not> (p < 1 \<or> (p \<noteq> 1 \<and> int (length ?ms) \<le> 10 * (p - 1)))"
    using assms(3) by (auto simp add: topic_message_count)
  have v: "view_topic tid e rq w =
             (render_template
                (Render_topic t ?pg (case cookie_username rq of None \<Rightarrow> [] | Some u \<Rightarrow> u)),
              w)"
  proof -
    have r: "10 * (p - 1) < 2 ^ 63 \<or> 10 * (p - 1) < int (length ?ms)"
      using assms(3) by (auto simp add: topic_message_count)
    have "paginate ?ms p 10 = Inr ?pg"
      by (subst paginate_cases [OF r], subst if_not_P [OF ok], rule refl)
    then show ?thesis
      by (simp add: view_topic_found [OF assms(1,2)] pg)
  qed
  have s: "sorted_wrt (\<lambda>a b. Message_id b \<le> Message_id a) (items ?pg)"
    using messages_by_id_desc_sorted [of w tid]
    by (simp add: sorted_wrt_take sorted_wrt_drop)
  have l: "length (items ?pg) =
             min 10 (length (filter (\<lambda>m. Message_topic_id m = tid) (messages w))
                     - 10 * nat (p - 1))"
    by (simp add: topic_message_count mult.commute min.commute)
  show ?thesis
    using v s l messages_by_id_desc_sorted [of w tid] messages_by_id_desc_mset [of w tid]
    by (intro exI [of _ ?pg]) (simp add: mult.commute)
qed

text \<open>
  With 25 messages in the topic: without a page number the page holds the 10 newest
  messages, and page 3 holds the remaining 5.
\<close>

theorem view_topic_pages_witness:
  "(\<exists>pg. view_topic 1 example_env example_request example_world =
            (render_template (Render_topic example_topic pg []), example_world)
         \<and> map Message_id (items pg) = [25, 24, 23, 22, 21, 20, 19, 18, 17, 16])
   \<and> (\<exists>pg. view_topic 1 example_env (example_request\<lparr>args_page := Some 3\<rparr>) example_world =
            (render_template (Render_topic example_topic pg []), example_world)
         \<and> map Message_id (items pg) = [5, 4, 3, 2, 1])"
proof -
  have n: "length (filter (\<lambda>m. Message_topic_id m = 1) (messages example_world)) = 25"
    using example_world_count by (simp add: topic_message_count)
  have c: "cookie_username example_request = None" "args_page example_request = None"
    by (simp_all add: example_request_def)
  from view_topic_pages [OF example_world_authenticated example_world_topic, of
      example_request 1 example_env]
  obtain pg1 where v1:
    "view_topic 1 example_env example_request example_world =
       (render_template (Render_topic example_topic pg1 []), example_world)"
    and i1: "items pg1 = take 10 (drop (10 * nat (1 - 1)) (messages_by_id_desc example_world 1))"
    by (auto simp add: c)
  from view_topic_pages [OF example_world_authenticated example_world_topic, of
      "example_request\<lparr>args_page := Some 3\<rparr>" 3 example_env]
  obtain pg3 where v3:
    "view_topic 1 example_env (example_request\<lparr>args_page := Some 3\<rparr>) example_world =
       (render_template (Render_topic example_topic pg3 []), example_world)"
    and i3: "items pg3 = take 10 (drop (10 * nat (3 - 1)) (messages_by_id_desc example_world 1))"
    by (auto simp add: c n)
  have m1: "map Message_id (items pg1) = [25, 24, 23, 22, 21, 20, 19, 18, 17, 16]"
    by (simp add: i1 take_map [symmetric] example_world_ids)
  have m3: "map Message_id (items pg3) = [5, 4, 3, 2, 1]"
    by (simp add: i3 take_map [symmetric] drop_map [symmetric] example_world_ids)
  show ?thesis
  proof (rule conjI)
    show "\<exists>pg. view_topic 1 example_env example_request example_world =
            (render_template (Render_topic example_topic pg []), example_world)
         \<and> map Message_id (items pg) = [25, 24, 23, 22, 21, 20, 19, 18, 17, 16]"
      by (rule exI [of _ pg1]) (simp add: v1 m1)
    show "\<exists>pg. view_topic 1 example_env (example_request\<lparr>args_page := Some 3\<rparr>) example_world =
            (render_template (Render_topic example_topic pg []), example_world)
         \<and> map Message_id (items pg) = [5, 4, 3, 2, 1]"
      by (rule exI [of _ pg3]) (simp add: v3 m3)
  qed
qed

section \<open>Creating and listing topics\<close>

lemma next_id_greater: "i \<in> set ids \<Longrightarrow> i < next_id ids"
proof -
  assume i: "i \<in> set ids"
  then have "ids \<noteq> []" by auto
  moreover have "i \<le> Max (set ids)" using i by simp
  ultimately show ?thesis by (simp add: next_id_def)
qed

lemma find_append_fresh:
  "\<forall>x\<in>set xs. \<not> P x \<Longrightarrow> P y \<Longrightarrow> find P (xs @ [y]) = Some y"
  by (induction xs) simp_all

lemma sort_key_append_least:
  fixes f :: "'a \<Rightarrow> int"
  shows "\<forall>x\<in>set xs. f y < f x \<Longrightarrow> sort_key f (xs @ [y]) = y # sort_key f xs"
  by (induction xs) simp_all

lemma topics_by_id_desc_sorted:
  "sorted_wrt (\<lambda>a b. Topic_id b \<le> Topic_id a) (topics_by_id_desc w)"
proof -
  have "sorted (map (\<lambda>t. - Topic_id t) (topics_by_id_desc w))"
    unfolding topics_by_id_desc_def by (rule sorted_sort_key)
  then show ?thesis
    by (simp add: sorted_map sorted_wrt_iff_nth_less)
qed

lemma new_topic_rejected:
  assumes "authenticated (session w) \<noteq> None" and "req_method rq = POST"
    and "\<not> truthy (form_title rq)"
  shows "new_topic e rq w =
           (render_template Render_new_topic, flash ''Topic title cannot be empty'' ''error'' w)"
  using assms by (simp add: new_topic_def login_required_allowed new_topic_body_def)

lemma new_topic_stored:
  assumes "authenticated (session w) \<noteq> None" and "req_method rq = POST"
    and "form_title rq = Some ti" and "ti \<noteq> []"
  shows "new_topic e rq w =
           (redirect (Url_view_topic (next_id (map Topic_id (topics w)))),
            w\<lparr>topics := topics w @
                 [\<lparr>Topic_id = next_id (map Topic_id (topics w)), Topic_title = ti\<rparr>]\<rparr>)"
  using assms
  by (simp add: new_topic_def login_required_allowed new_topic_body_def Let_def)

text \<open>
  C2, as stated, fails: the title of one space is empty after trimming, and \<open>new_topic\<close>
  persists a Topic with it and redirects to its view.
\<close>

theorem new_topic_blank_title_counterexample:
  "trimmed [32] = []
   \<and> new_topic example_env (example_request\<lparr>req_method := POST, form_title := Some [32]\<rparr>)
        empty_world
     = (redirect (Url_view_topic 1),
        empty_world\<lparr>topics := [\<lparr>Topic_id = 1, Topic_title = [32]\<rparr>]\<rparr>)"
proof -
  have a: "authenticated (session empty_world) \<noteq> None"
    by (simp add: empty_world_def example_session_def)
  have "trimmed [32] = []"
    by (simp add: trimmed_def is_space_def)
  then show ?thesis
    using new_topic_stored [OF a, of
        "example_request\<lparr>req_method := POST, form_title := Some [32]\<rparr>" "[32]" example_env]
    by (simp add: empty_world_def next_id_def)
qed

text \<open>
  C2 (amended). For an authenticated client posting the form: when the title is absent
  or the empty string (the title is not trimmed), \<open>new_topic\<close> flashes
  \<open>Topic title cannot be empty\<close>, renders the form again and persists nothing; for
  every other title, whitespace-only ones included, it persists one Topic with that
  title and an id no stored Topic has, and redirects to that topic's view.
\<close>

theorem new_topic_validation:
  assumes "authenticated (session w) \<noteq> None" and "req_method rq = POST"
  shows "(form_title rq = None \<or> form_title rq = Some [] \<longrightarrow>
            new_topic e rq w =
              (render_template Render_new_topic,
               flash ''Topic title cannot be empty'' ''error'' w)
          \<and> topics (snd (new_topic e rq w)) = topics w
          \<and> messages (snd (new_topic e rq w)) = messages w)
       \<and> (\<forall>ti. form_title rq = Some ti \<and> ti \<noteq> [] \<longrightarrow>
            (\<exists>tp. new_topic e rq w =
                    (redirect (Url_view_topic (Topic_id tp)), w\<lparr>topics := topics w @ [tp]\<rparr>)
                 \<and> Topic_title tp = ti
                 \<and> Topic_id tp \<notin> Topic_id ` set (topics w)))"
proof -
  have rejected: "new_topic e rq w =
          (render_template Render_new_topic, flash ''Topic title cannot be empty'' ''error'' w)
        \<and> topics (snd (new_topic e rq w)) = topics w
        \<and> messages (snd (new_topic e rq w)) = messages w"
    if "form_title rq = None \<or> form_title rq = Some []"
  proof -
    from that have "\<not> truthy (form_title rq)" by auto
    from new_topic_rejected [OF assms this, of e] show ?thesis
      by (simp add: flash_def)
  qed
  have stored: "\<exists>tp. new_topic e rq w =
                    (redirect (Url_view_topic (Topic_id tp)), w\<lparr>topics := topics w @ [tp]\<rparr>)
                 \<and> Topic_title tp = ti
                 \<and> Topic_id tp \<notin> Topic_id ` set (topics w)"
    if ti: "form_title rq = Some ti" "ti \<noteq> []" for ti
  proof -
    let ?tp = "\<lparr>Topic_id = next_id (map Topic_id (topics w)), Topic_title = ti\<rparr>"
    have "Topic_id ?tp \<notin> Topic_id ` set (topics w)"
      using next_id_greater [of "Topic_id ?tp" "map Topic_id (topics w)"] by auto
    then show ?thesis
      using new_topic_stored [OF assms ti, of e]
      by (intro exI [of _ ?tp]) simp
  qed
  show ?thesis using rejected stored by blast
qed

theorem new_topic_validation_witness:
  "new_topic example_env (example_request\<lparr>req_method := POST, form_title := Some []\<rparr>)
       example_world
     = (render_template Render_new_topic,
        flash ''Topic title cannot be empty'' ''error'' example_world)
   \<and> (\<exists>tp. new_topic example_env
              (example_request\<lparr>req_method := POST, form_title := Some [32, 32]\<rparr>) example_world
            = (redirect (Url_view_topic (Topic_id tp)),
               example_world\<lparr>topics := topics example_world @ [tp]\<rparr>)
          \<and> Topic_title tp = [32, 32]
          \<and> Topic_id tp \<notin> Topic_id ` set (topics example_world))"
  using new_topic_validation [OF example_world_authenticated, of
      "example_request\<lparr>req_method := POST, form_title := Some []\<rparr>" example_env]
    new_topic_validation [OF example_world_authenticated, of
      "example_request\<lparr>req_method := POST, form_title := Some [32, 32]\<rparr>" example_env]
  by simp

text \<open>
  C5. For an authenticated client posting a non-empty title of at most 100 characters,
  \<open>new_topic\<close> persists a Topic \<open>tp\<close> with that title and redirects to the view of its
  id. In the resulting store, looking that id up returns \<open>tp\<close>, \<open>view_topic\<close> of that id
  renders \<open>tp\<close>, and \<open>list_topics\<close> renders \<open>tp\<close> first, followed by what it listed before;
  the listing is in order of descending id and holds exactly the stored topics.
\<close>

theorem new_topic_listed_first:
  assumes "authenticated (session w) \<noteq> None" and "req_method rq = POST"
    and "form_title rq = Some ti" and "ti \<noteq> []" and "length ti \<le> 100"
  shows "\<exists>tp. new_topic e rq w =
               (redirect (Url_view_topic (Topic_id tp)), w\<lparr>topics := topics w @ [tp]\<rparr>)
            \<and> Topic_title tp = ti
            \<and> get_topic (snd (new_topic e rq w)) (Topic_id tp) = Some tp
            \<and> (\<exists>pg u. view_topic (Topic_id tp) e' (rq'\<lparr>args_page := None\<rparr>)
                          (snd (new_topic e rq w))
                        = (render_template (Render_topic tp pg u), snd (new_topic e rq w)))
            \<and> list_topics e' rq' (snd (new_topic e rq w)) =
                (render_template (Render_topics (tp # topics_by_id_desc w)),
                 snd (new_topic e rq w))
            \<and> sorted_wrt (\<lambda>a b. Topic_id b \<le> Topic_id a) (tp # topics_by_id_desc w)
            \<and> mset (tp # topics_by_id_desc w) = mset (topics (snd (new_topic e rq w)))"
proof -
  let ?tp = "\<lparr>Topic_id = next_id (map Topic_id (topics w)), Topic_title = ti\<rparr>"
  let ?w' = "w\<lparr>topics := topics w @ [?tp]\<rparr>"
  have n: "new_topic e rq w = (redirect (Url_view_topic (Topic_id ?tp)), ?w')"
    using new_topic_stored [OF assms(1-4), of e] by simp
  have a': "authenticated (session ?w') \<noteq> None"
    using assms(1) by simp
  have newest: "\<forall>x\<in>set (topics w). Topic_id x < Topic_id ?tp"
    using next_id_greater [of _ "map Topic_id (topics w)"] by auto
  have g: "get_topic ?w' (Topic_id ?tp) = Some ?tp"
  proof -
    have "\<forall>x\<in>set (topics w). \<not> Topic_id x = Topic_id ?tp"
      using newest by force
    then have "find (\<lambda>t. Topic_id t = Topic_id ?tp) (topics w @ [?tp]) = Some ?tp"
      by (rule find_append_fresh) (rule refl)
    then show ?thesis by (simp add: get_topic_def)
  qed
  have l: "topics_by_id_desc ?w' = ?tp # topics_by_id_desc w"
  proof -
    have "\<forall>x\<in>set (topics w). - Topic_id ?tp < - Topic_id x"
      using newest by simp
    then have "sort_key (\<lambda>t. - Topic_id t) (topics w @ [?tp]) =
                 ?tp # sort_key (\<lambda>t. - Topic_id t) (topics w)"
      by (rule sort_key_append_least)
    then show ?thesis by (simp add: topics_by_id_desc_def)
  qed
  have v: "\<exists>pg u. view_topic (Topic_id ?tp) e' (rq'\<lparr>args_page := None\<rparr>) ?w'
                    = (render_template (Render_topic ?tp pg u), ?w')"
    using view_topic_found [OF a' g, of e' "rq'\<lparr>args_page := None\<rparr>"]
    by (simp add: paginate_cases) blast
  have lt: "list_topics e' rq' ?w' =
              (render_template (Render_topics (?tp # topics_by_id_desc w)), ?w')"
    by (simp add: list_topics_def login_required_allowed [OF a'] list_topics_body_def l)
  have s: "sorted_wrt (\<lambda>a b. Topic_id b \<le> Topic_id a) (?tp # topics_by_id_desc w)"
    using topics_by_id_desc_sorted [of ?w'] by (simp only: l)
  have m: "mset (?tp # topics_by_id_desc w) = mset (topics ?w')"
    by (simp add: topics_by_id_desc_def)
  show ?thesis
    using g v lt s m by (intro exI [of _ ?tp]) (simp add: n)
qed

theorem new_topic_listed_first_witness:
  "\<exists>tp. new_topic example_env
            (example_request\<lparr>req_method := POST, form_title := Some [104, 105]\<rparr>) example_world
          = (redirect (Url_view_topic (Topic_id tp)),
             example_world\<lparr>topics := topics example_world @ [tp]\<rparr>)
        \<and> get_topic (example_world\<lparr>topics := topics example_world @ [tp]\<rparr>) (Topic_id tp)
            = Some tp
        \<and> list_topics example_env example_request
             (example_world\<lparr>topics := topics example_world @ [tp]\<rparr>)
            = (render_template (Render_topics [tp, example_topic]),
               example_world\<lparr>topics := topics example_world @ [tp]\<rparr>)"
proof -
  have l: "topics_by_id_desc example_world = [example_topic]"
    by (simp add: topics_by_id_desc_def example_world_def)
  from new_topic_listed_first [OF example_world_authenticated, of
      "example_request\<lparr>req_method := POST, form_title := Some [104, 105]\<rparr>" "[104, 105]"
      example_env example_env example_request]
  obtain tp where
    n: "new_topic example_env
          (example_request\<lparr>req_method := POST, form_title := Some [104, 105]\<rparr>) example_world
        = (redirect (Url_view_topic (Topic_id tp)),
           example_world\<lparr>topics := topics example_world @ [tp]\<rparr>)"
    and g: "get_topic (snd (new_topic example_env
          (example_request\<lparr>req_method := POST, form_title := Some [104, 105]\<rparr>) example_world))
          (Topic_id tp) = Some tp"
    and lt: "list_topics example_env example_request (snd (new_topic example_env
          (example_request\<lparr>req_method := POST, form_title := Some [104, 105]\<rparr>) example_world))
        = (render_template (Render_topics (tp # topics_by_id_desc example_world)),
           snd (new_topic example_env
          (example_request\<lparr>req_method := POST, form_title := Some [104, 105]\<rparr>) example_world))"
    by auto
  show ?thesis
    using g lt by (intro exI [of _ tp]) (simp add: n l)
qed

section \<open>Integers beyond the 64-bit range\<close>

text \<open>
  The three places where a request's integer reaches the driver, each at the smallest
  value it refuses: a topic id of \<open>2^63\<close> in \<open>view_topic\<close> and in \<open>add_message\<close>, and
  page 922337203685477582, whose offset is \<open>2^63 + 2\<close>. The answer is HTTP 500 and the
  store is unchanged.
\<close>

lemma example_world_no_large_topic: "get_topic example_world (2 ^ 63) = None"
  by (simp add: get_topic_def example_world_def example_topic_def)

lemma view_topic_large_id:
  "view_topic (2 ^ 63) example_env example_request example_world
     = (abort InternalServerError, example_world)"
  by (rule view_topic_overflow [OF example_world_authenticated example_world_no_large_topic])
    simp

lemma view_topic_large_page:
  "view_topic 1 example_env (example_request\<lparr>args_page := Some 922337203685477582\<rparr>)
       example_world
     = (abort InternalServerError, example_world)"
proof -
  have "paginate (messages_by_id_desc example_world 1) 922337203685477582 10
          = Inl InternalServerError"
    by (rule paginate_overflow) (simp_all add: example_world_count)
  then show ?thesis
    by (simp add: view_topic_found [OF example_world_authenticated example_world_topic])
qed

lemma add_message_large_id:
  "add_message (2 ^ 63) example_env
       (example_request\<lparr>req_method := POST, form_content := Some [104, 105]\<rparr>) example_world
     = (abort InternalServerError, example_world)"
proof -
  have "\<not> accepts_key example_world (2 ^ 63)"
    by (simp add: accepts_key_def sqlite_int_def get_topic_def example_world_def
        example_topic_def)
  then show ?thesis
    by (intro add_message_overflow [OF example_world_authenticated, of _ "[104, 105]"]) simp_all
qed

end
